theory Spec2Isabelle
  imports Main
begin

section \<open>Strings\<close>

text \<open>
  The generator works on JavaScript strings. They are modelled as \<^typ>\<open>string\<close>; the
  characters that cannot be written inside a string literal get a name.
\<close>

abbreviation NL :: string where "NL \<equiv> [CHR 0x0A]"
abbreviation SQ :: string where "SQ \<equiv> [CHR 0x27]"
abbreviation DQ :: string where "DQ \<equiv> [CHR 0x22]"

text \<open>\<^verbatim>\<open>Array.prototype.join\<close>.\<close>

fun join :: "string \<Rightarrow> string list \<Rightarrow> string" where
  "join sep [] = []"
| "join sep [x] = x"
| "join sep (x # y # ys) = x @ sep @ join sep (y # ys)"

text \<open>\<^verbatim>\<open>String.prototype.startsWith\<close>.\<close>

definition startsWith :: "string \<Rightarrow> string \<Rightarrow> bool" where
  "startsWith s p = (take (length p) s = p)"

text \<open>
  \<^verbatim>\<open>String.prototype.substring(start, end)\<close>: both indices are clamped to the string and
  swapped when they are out of order.
\<close>

definition substring :: "string \<Rightarrow> int \<Rightarrow> int \<Rightarrow> string" where
  "substring s start fin =
     (let len = int (length s);
          a = min (max start 0) len;
          b = min (max fin 0) len;
          lo = min a b;
          hi = max a b
      in take (nat (hi - lo)) (drop (nat lo) s))"

section \<open>The syntax tree\<close>

text \<open>
  The nodes of the TypeScript syntax tree that \<^verbatim>\<open>compileNode\<close> reads, one constructor per
  \<^verbatim>\<open>SyntaxKind\<close> of its switch. A node keeps the parts the compiler reads: its children, the
  presence of a question token, its JSDoc tags (the text of each tag) and, where the compiler
  calls \<^verbatim>\<open>getText()\<close>, its source text.

  \<open>OtherNode kind text parentIsSourceFile\<close> is a node of any kind the switch does not list;
  \<open>parentIsSourceFile\<close> is \<^verbatim>\<open>ts.isSourceFile(node.parent)\<close>.
\<close>

datatype specifier = Specifier "string option" string
  \<comment> \<open>an import or export specifier: the text of \<^verbatim>\<open>propertyName\<close> (if any) and of \<^verbatim>\<open>name\<close>\<close>

datatype named_bindings = NamedImports "specifier list" | NamespaceImport string

datatype import_clause = ImportClause "named_bindings option"

datatype enum_member = EnumMember string

datatype node =
    Identifier string
  | Parameter node bool "node option"
      \<comment> \<open>name, question token, type\<close>
  | PropertySignature node bool "node option"
      \<comment> \<open>name, question token, type\<close>
  | MethodSignature node
  | TypeReference string "node list option" string
      \<comment> \<open>text of \<^verbatim>\<open>typeName\<close>, \<^verbatim>\<open>typeArguments\<close>, text of the node\<close>
  | FunctionType
  | TypeLiteral "node list"
  | ArrayType node
  | TupleType "node list"
  | UnionType "node list"
  | LiteralType string
  | EnumDeclaration "string list" node "enum_member list"
      \<comment> \<open>JSDoc tags, name, members\<close>
  | InterfaceDeclaration "string list" node "node list" "node list list option"
      \<comment> \<open>JSDoc tags, name, members, the types of each heritage clause\<close>
  | TypeAliasDeclaration "string list" node node
      \<comment> \<open>JSDoc tags, name, type\<close>
  | ExpressionWithTypeArguments node
  | ParenthesizedType node
  | ExportDeclaration "specifier list option" "string option"
      \<comment> \<open>elements of \<^verbatim>\<open>exportClause\<close>, text of \<^verbatim>\<open>moduleSpecifier\<close>\<close>
  | ImportDeclaration "import_clause option" string
      \<comment> \<open>\<^verbatim>\<open>importClause\<close>, text of \<^verbatim>\<open>moduleSpecifier\<close>\<close>
  | SourceFile string "node list"
      \<comment> \<open>file name, statements\<close>
  | AnyKeyword
  | NumberKeyword
  | ObjectKeyword
  | BooleanKeyword
  | StringKeyword
  | SymbolKeyword
  | UndefinedKeyword
  | NullKeyword
  | NeverKeyword
  | IndexSignature string
  | OtherNode string string bool

section \<open>The collaborators\<close>

text \<open>
  The type checker, the private \<^verbatim>\<open>ts.getTextOfConstantValue\<close> and Node's \<^verbatim>\<open>path\<close> module are
  not part of the repository: the compiler is parametric in them. Constant values
  (\<^verbatim>\<open>string | number\<close>) are only handed from the checker to \<^verbatim>\<open>ts.getTextOfConstantValue\<close>, so their
  type is a parameter \<open>'c\<close>. A query on a node is a function of the node.
\<close>

record symbol =
  symbolName :: string
  declarations :: "node list option"

record 'c TypeChecker =
  getSymbolAtLocation :: "node \<Rightarrow> symbol option"
  getConstantValue :: "enum_member \<Rightarrow> 'c option"

record 'c library =
  ts_getTextOfConstantValue :: "'c \<Rightarrow> string"
  path_extname :: "string \<Rightarrow> string"
  path_dirname :: "string \<Rightarrow> string"
  path_basename :: "string \<Rightarrow> string \<Rightarrow> string"

record ICompilerOptions =
  ignoreGenerics :: "bool option"
  ignoreIndexSignature :: "bool option"
  inlineImports :: "bool option"
  outDir :: "string option"
  suffix :: string

record 'c Compiler =
  checker :: "'c TypeChecker"
  options :: ICompilerOptions
  topNode :: node

text \<open>JavaScript truthiness of an optional boolean and of an optional string.\<close>

definition truthy :: "bool option \<Rightarrow> bool" where
  "truthy b = (b = Some True)"

definition truthyString :: "string option \<Rightarrow> bool" where
  "truthyString s = (case s of None \<Rightarrow> False | Some t \<Rightarrow> t \<noteq> [])"

definition defaultSuffix :: string where
  "defaultSuffix = ''-schema''"

definition ignoreNode :: string where
  "ignoreNode = []"

section \<open>Results\<close>

text \<open>
  A call either throws or returns its value together with the list \<^verbatim>\<open>exportedNames\<close> of the
  compiler object, which it may have extended. \<open>OutOfFuel\<close> is not an error of the program:
  it is the model's answer when inlined imports were followed deeper than the fuel allows.
\<close>

datatype error =
    NodeNotSupported string string
      \<comment> \<open>"Node K not supported by ts-joi-schema-generator: text"\<close>
  | GenericsNotSupported string
      \<comment> \<open>"Generics are not yet supported by ts-joi-schema-generator: text"\<close>
  | TypeError
      \<comment> \<open>reading \<^verbatim>\<open>kind\<close> of \<^verbatim>\<open>undefined\<close>\<close>
  | CantProcess string
  | OutOfFuel

type_synonym 'a result = "error + 'a \<times> string list"

text \<open>\<^verbatim>\<open>xs.map(f)\<close> for an \<open>f\<close> that may throw and may extend \<^verbatim>\<open>exportedNames\<close>.\<close>

fun mapR :: "('a \<Rightarrow> string list \<Rightarrow> 'b result) \<Rightarrow> 'a list \<Rightarrow> string list \<Rightarrow> 'b list result" where
  "mapR f [] ns = Inr ([], ns)"
| "mapR f (x # xs) ns =
     (case f x ns of
        Inl e \<Rightarrow> Inl e
      | Inr (y, ns') \<Rightarrow>
          (case mapR f xs ns' of
             Inl e \<Rightarrow> Inl e
           | Inr (ys, ns'') \<Rightarrow> Inr (y # ys, ns'')))"

lemma mapR_cong [fundef_cong]:
  "xs = ys \<Longrightarrow> ns = ms \<Longrightarrow> (\<And>x s. x \<in> set ys \<Longrightarrow> f x s = g x s) \<Longrightarrow> mapR f xs ns = mapR g ys ms"
  by (induction ys arbitrary: xs ns ms) (auto split: sum.splits)

section \<open>The compiler\<close>

definition getName :: "'c Compiler \<Rightarrow> node \<Rightarrow> string" where
  "getName C ident =
     (case getSymbolAtLocation (checker C) ident of
        Some found \<Rightarrow> symbolName found
      | None \<Rightarrow> ''unknown'')"

text \<open>\<^verbatim>\<open>content.replace(/\n/g, "\n  ")\<close>\<close>

definition indent :: "string \<Rightarrow> string" where
  "indent content = concat (map (\<lambda>c. if c = CHR 0x0A then NL @ ''  '' else [c]) content)"

definition hasTag :: "string list \<Rightarrow> string \<Rightarrow> bool" where
  "hasTag tags tagName = (find (\<lambda>tag. tag = ''@'' @ tagName) tags \<noteq> None)"

definition getTextOfConstantValue :: "'c library \<Rightarrow> 'c option \<Rightarrow> string" where
  "getTextOfConstantValue L v =
     (case v of None \<Rightarrow> ''undefined'' | Some c \<Rightarrow> ts_getTextOfConstantValue L c)"

text \<open>The line of a member between the braces of \<^verbatim>\<open>keys\<close>: \<^verbatim>\<open>"  " + this.indent(n) + ",\n"\<close>\<close>

definition memberLine :: "string \<Rightarrow> string" where
  "memberLine n = ''  '' @ indent n @ '','' @ NL"

text \<open>The part an import or export specifier contributes: \<^verbatim>\<open>a as b\<close>, or \<^verbatim>\<open>b\<close>.\<close>

definition specifierPart :: "specifier \<Rightarrow> string" where
  "specifierPart el =
     (case el of
        Specifier (Some p) n \<Rightarrow> p @ '' as '' @ n
      | Specifier None n \<Rightarrow> n)"

text \<open>
  The loop over the elements of an import or export clause: the first part is pushed as it
  is, every later one with \<^verbatim>\<open>", "\<close> before it; the parts are joined with the empty string.
\<close>

fun clauseParts :: "bool \<Rightarrow> specifier list \<Rightarrow> string" where
  "clauseParts first [] = []"
| "clauseParts first (el # els) =
     (if first then specifierPart el else '', '' @ specifierPart el) @ clauseParts False els"

text \<open>The rewritten module path ("format to new module path").\<close>

definition outPath :: "'c library \<Rightarrow> ICompilerOptions \<Rightarrow> string \<Rightarrow> string" where
  "outPath L opts filePath =
     (let ext = path_extname L filePath;
          dir = (if truthyString (outDir opts) then ''./'' else path_dirname L filePath)
      in dir @ (path_basename L filePath ext @ suffix opts))"

text \<open>
  The first part of \<^verbatim>\<open>_compileExportDeclaration\<close>: the rewritten statement it returns, or
  \<open>None\<close> where it falls through to the final \<^verbatim>\<open>return ''\<close>.
\<close>

definition rewrittenExport ::
  "'c library \<Rightarrow> ICompilerOptions \<Rightarrow> specifier list option \<Rightarrow> string option \<Rightarrow> string option" where
  "rewrittenExport L opts exportClause moduleSpecifier =
     (case exportClause of
        None \<Rightarrow> None
      | Some elements \<Rightarrow>
          (case moduleSpecifier of
             None \<Rightarrow> None
           | Some rawModuleSpecifier \<Rightarrow>
               (let moduleSpecifier' =
                      substring rawModuleSpecifier 1 (int (length rawModuleSpecifier) - 1)
                in if startsWith moduleSpecifier' ''.'' then
                     Some (''export { '' @ clauseParts True elements @
                           '' } from '' @ SQ @ outPath L opts moduleSpecifier' @ SQ)
                   else None)))"

text \<open>
  The first part of \<^verbatim>\<open>_compileImportDeclaration\<close>: the rewritten statement it returns, or
  \<open>None\<close> where it goes on to the test of \<^verbatim>\<open>inlineImports\<close>.
\<close>

definition rewrittenImport ::
  "'c library \<Rightarrow> ICompilerOptions \<Rightarrow> import_clause option \<Rightarrow> string \<Rightarrow> string option" where
  "rewrittenImport L opts importClause rawModuleSpecifier =
     (case importClause of
        None \<Rightarrow> None
      | Some (ImportClause namedBindings) \<Rightarrow>
          (let moduleSpecifier' =
                 substring rawModuleSpecifier 1 (int (length rawModuleSpecifier) - 1)
           in if startsWith moduleSpecifier' ''.'' then
                (case namedBindings of
                   Some (NamedImports elements) \<Rightarrow>
                     Some (''import { '' @ clauseParts True elements @
                           '' } from '' @ SQ @ outPath L opts moduleSpecifier' @ SQ)
                 | _ \<Rightarrow> None)
              else None))"

text \<open>
  \<^verbatim>\<open>importedSym && importedSym.declarations\<close>, for the symbol the checker finds at the module
  specifier (a string literal whose parent is the import declaration).
\<close>

definition importedDeclarations :: "'c Compiler \<Rightarrow> string \<Rightarrow> node list option" where
  "importedDeclarations C rawModuleSpecifier =
     (case getSymbolAtLocation (checker C)
             (OtherNode ''StringLiteral'' rawModuleSpecifier False) of
        None \<Rightarrow> None
      | Some importedSym \<Rightarrow> declarations importedSym)"

definition sourceFilePrefix :: string where
  "sourceFilePrefix =
     ''import * as Joi from '' @ DQ @ ''joi'' @ DQ @ '';'' @ NL @
     ''// tslint:disable:object-literal-key-quotes'' @ NL @ NL"

lemma size_in_list: "x \<in> set xs \<Longrightarrow> size x \<le> size_list size xs"
  by (induction xs) auto

lemma size_in_lists:
  "x \<in> set xs \<Longrightarrow> xs \<in> set xss \<Longrightarrow> size x \<le> size_list (size_list size) xss"
  by (induction xss) (auto dest: size_in_list)

text \<open>
  \<^verbatim>\<open>compileNode\<close> and \<^verbatim>\<open>compileOptType\<close>. There is one equation for each case of the switch,
  in the order of the switch; its right-hand side is the body of the private method the
  case calls (\<^verbatim>\<open>_compileIdentifier\<close>, \<^verbatim>\<open>_compileParameterDeclaration\<close>,
  \<^verbatim>\<open>_compilePropertySignature\<close> and so on; \<^verbatim>\<open>_compileSourceFile\<close> with
  \<^verbatim>\<open>_compileSourceFileStatements\<close> in it). The equation for \<open>OtherNode\<close> is what follows the
  switch. The list \<open>ns\<close> is \<^verbatim>\<open>exportedNames\<close>.

  An import cycle makes the inlining of imports run forever. The fuel bounds it: it goes
  down by one where the declarations of an imported module are compiled, and nowhere else.
\<close>

function (sequential)
  compileNode :: "'c library \<Rightarrow> 'c Compiler \<Rightarrow> nat \<Rightarrow> node \<Rightarrow> string list \<Rightarrow> string result" and
  compileOptType :: "'c library \<Rightarrow> 'c Compiler \<Rightarrow> nat \<Rightarrow> node option \<Rightarrow> string list \<Rightarrow> string result"
where
  "compileNode L C fuel (Identifier text) ns = Inr (text, ns)"
| "compileNode L C fuel (Parameter name questionToken type) ns =
     (let isOpt = (if questionToken then '', optional'' else [])
      in case compileOptType L C fuel type ns of
           Inl e \<Rightarrow> Inl e
         | Inr (t, ns') \<Rightarrow>
             Inr (''Param('' @ SQ @ getName C name @ SQ @ '', '' @ t @ isOpt @ '')'', ns'))"
| "compileNode L C fuel (PropertySignature name questionToken type) ns =
     (case compileOptType L C fuel type ns of
        Inl e \<Rightarrow> Inl e
      | Inr (prop, ns') \<Rightarrow>
          (let val = (if questionToken then prop else prop @ ''.required()'')
           in Inr (SQ @ getName C name @ SQ @ '': '' @ val, ns')))"
| "compileNode L C fuel (MethodSignature name) ns =
     Inr (SQ @ getName C name @ SQ @ '': Joi.func().required()'', ns)"
| "compileNode L C fuel (TypeReference typeName typeArguments text) ns =
     (case typeArguments of
        None \<Rightarrow>
          (if typeName = ''Date'' then Inr (''Joi.date()'', ns)
           else if typeName = ''Buffer'' then Inr (''Joi.binary()'', ns)
           else Inr (''Joi.lazy(() => '' @ typeName @ '')'', ns))
      | Some args \<Rightarrow>
          (if typeName = ''Array'' then
             (case args of
                [] \<Rightarrow> Inl TypeError
              | a # _ \<Rightarrow>
                  (case compileNode L C fuel a ns of
                     Inl e \<Rightarrow> Inl e
                   | Inr (t, ns') \<Rightarrow> Inr (''Joi.array().items('' @ t @ '')'', ns')))
           else if truthy (ignoreGenerics (options C)) then Inr (''Joi.any()'', ns)
           else Inl (GenericsNotSupported text)))"
| "compileNode L C fuel FunctionType ns = Inr (''Joi.func()'', ns)"
| "compileNode L C fuel (TypeLiteral members) ns =
     (case mapR (compileNode L C fuel) members ns of
        Inl e \<Rightarrow> Inl e
      | Inr (ms, ns') \<Rightarrow>
          Inr (''Joi.object().keys({'' @ NL @
               concat (map memberLine ms) @ ''})'', ns'))"
| "compileNode L C fuel (ArrayType elementType) ns =
     (case compileNode L C fuel elementType ns of
        Inl e \<Rightarrow> Inl e
      | Inr (t, ns') \<Rightarrow> Inr (''Joi.array().items('' @ t @ '')'', ns'))"
| "compileNode L C fuel (TupleType elementTypes) ns =
     (case mapR (compileNode L C fuel) elementTypes ns of
        Inl e \<Rightarrow> Inl e
      | Inr (members, ns') \<Rightarrow> Inr (''Joi.array().ordered('' @ join '', '' members @ '')'', ns'))"
| "compileNode L C fuel (UnionType types) ns =
     (case mapR (compileNode L C fuel) types ns of
        Inl e \<Rightarrow> Inl e
      | Inr (members, ns') \<Rightarrow> Inr (''Joi.alternatives('' @ join '', '' members @ '')'', ns'))"
| "compileNode L C fuel (LiteralType text) ns = Inr (''Joi.valid('' @ text @ '')'', ns)"
| "compileNode L C fuel (EnumDeclaration tags name members) ns =
     (if \<not> hasTag tags ''schema'' then Inr ([], ns)
      else
        (let nm = getName C name;
             vals = map (\<lambda>m. getTextOfConstantValue L (getConstantValue (checker C) m)) members
         in Inr (''export const '' @ nm @ '' = Joi.valid('' @ join '', '' vals @ '').strict();'',
                 ns @ [nm])))"
| "compileNode L C fuel (InterfaceDeclaration tags name members heritageClauses) ns =
     (if \<not> hasTag tags ''schema'' then Inr ([], ns)
      else
        (let nm = getName C name
         in case mapR (compileNode L C fuel) members ns of
              Inl e \<Rightarrow> Inl e
            | Inr (compiled, ns1) \<Rightarrow>
                (let ms = map memberLine (filter (\<lambda>n. n \<noteq> ignoreNode) compiled)
                 in case (case heritageClauses of
                            None \<Rightarrow> Inr ([], ns1)
                          | Some clauses \<Rightarrow> mapR (mapR (compileNode L C fuel)) clauses ns1) of
                      Inl e \<Rightarrow> Inl e
                    | Inr (pushed, ns2) \<Rightarrow>
                        (let extend = concat pushed
                         in if ''Array'' \<in> set extend then Inr ([], ns2)
                            else
                              (let concats = map (\<lambda>ex. ''.concat('' @ ex @ '')'') extend
                               in Inr (''export const '' @ nm @ '' = Joi.object()'' @
                                       concat concats @ ''.keys({'' @ NL @ concat ms @
                                       ''}).strict();'',
                                       ns2 @ [nm]))))))"
| "compileNode L C fuel (TypeAliasDeclaration tags name type) ns =
     (if \<not> hasTag tags ''schema'' then Inr ([], ns)
      else
        (let nm = getName C name
         in case compileNode L C fuel type (ns @ [nm]) of
              Inl e \<Rightarrow> Inl e
            | Inr (compiled, ns') \<Rightarrow>
                (let fullType = (if startsWith compiled DQ
                                 then ''Joi.valid('' @ compiled @ '')'' else compiled)
                 in Inr (''export const '' @ nm @ '' = '' @ fullType @ ''.strict();'', ns'))))"
| "compileNode L C fuel (ExpressionWithTypeArguments expression) ns =
     compileNode L C fuel expression ns"
| "compileNode L C fuel (ParenthesizedType type) ns = compileNode L C fuel type ns"
| "compileNode L C fuel (ExportDeclaration exportClause moduleSpecifier) ns =
     (case rewrittenExport L (options C) exportClause moduleSpecifier of
        Some rewritten \<Rightarrow> Inr (rewritten, ns)
      | None \<Rightarrow> Inr ([], ns))"
| "compileNode L C fuel (ImportDeclaration importClause rawModuleSpecifier) ns =
     (case rewrittenImport L (options C) importClause rawModuleSpecifier of
        Some rewritten \<Rightarrow> Inr (rewritten, ns)
      | None \<Rightarrow>
          (if truthy (inlineImports (options C)) then
             (case importedDeclarations C rawModuleSpecifier of
                Some decls \<Rightarrow>
                  (case fuel of
                     0 \<Rightarrow> Inl OutOfFuel
                   | Suc fuel' \<Rightarrow>
                       (case mapR (compileNode L C fuel') decls ns of
                          Inl e \<Rightarrow> Inl e
                        | Inr (parts, ns') \<Rightarrow> Inr (concat parts, ns')))
              | None \<Rightarrow> Inr ([], ns))
           else Inr ([], ns)))"
| "compileNode L C fuel (SourceFile fileName statements) ns =
     (case mapR (compileNode L C fuel) statements ns of
        Inl e \<Rightarrow> Inl e
      | Inr (compiled, ns') \<Rightarrow>
          (let body = join (NL @ NL) (filter (\<lambda>s. s \<noteq> []) compiled)
           in if SourceFile fileName statements \<noteq> topNode C then Inr (body, ns')
              else Inr (sourceFilePrefix @ body @ NL @ NL, ns')))"
| "compileNode L C fuel AnyKeyword ns = Inr (''Joi.any()'', ns)"
| "compileNode L C fuel NumberKeyword ns = Inr (''Joi.number()'', ns)"
| "compileNode L C fuel ObjectKeyword ns = Inr (''Joi.object()'', ns)"
| "compileNode L C fuel BooleanKeyword ns = Inr (''Joi.boolean()'', ns)"
| "compileNode L C fuel StringKeyword ns = Inr (''Joi.string()'', ns)"
| "compileNode L C fuel SymbolKeyword ns = Inr (''Joi.symbol()'', ns)"
| "compileNode L C fuel UndefinedKeyword ns = Inr (''Joi.valid(undefined)'', ns)"
| "compileNode L C fuel NullKeyword ns = Inr (''Joi.valid(null)'', ns)"
| "compileNode L C fuel NeverKeyword ns = Inr (''Joi.forbidden()'', ns)"
| "compileNode L C fuel (IndexSignature text) ns =
     (if truthy (ignoreIndexSignature (options C)) then Inr (ignoreNode, ns)
      else Inl (NodeNotSupported ''IndexSignature'' text))"
| "compileNode L C fuel (OtherNode kind text parentIsSourceFile) ns =
     (if parentIsSourceFile then Inr ([], ns)
      else Inl (NodeNotSupported kind text))"
| "compileOptType L C fuel None ns = Inr (''Joi.any()'', ns)"
| "compileOptType L C fuel (Some typeNode) ns = compileNode L C fuel typeNode ns"
  by pat_completeness auto

termination
  by (relation "inv_image (less_than <*lex*> less_than)
        (\<lambda>x. case x of
               Inl (L, C, fuel, n, ns) \<Rightarrow> (fuel, size n)
             | Inr (L, C, fuel, t, ns) \<Rightarrow> (fuel, size_option size t))")
     (auto simp: less_Suc_eq_le dest: size_in_list size_in_lists)

text \<open>
  \<^verbatim>\<open>Compiler.compile\<close>. The program that \<^verbatim>\<open>ts.createProgram\<close> builds is a parameter: its type
  checker, its source files and the text of its diagnostics.
\<close>

record 'c Program =
  getTypeChecker :: "'c TypeChecker"
  getSourceFile :: "string \<Rightarrow> node option"
  collectDiagnostics :: string

definition defaultOptions :: ICompilerOptions where
  "defaultOptions =
     \<lparr>ignoreGenerics = Some False, ignoreIndexSignature = Some False,
      inlineImports = Some False, outDir = None, suffix = defaultSuffix\<rparr>"

definition compile ::
  "'c library \<Rightarrow> 'c Program \<Rightarrow> nat \<Rightarrow> string \<Rightarrow> ICompilerOptions \<Rightarrow> error + string" where
  "compile L program fuel filePath opts =
     (case getSourceFile program filePath of
        None \<Rightarrow>
          Inl (CantProcess (''Can'' @ SQ @ ''t process '' @ filePath @ '': '' @
                            collectDiagnostics program))
      | Some root \<Rightarrow>
          (case compileNode L \<lparr>checker = getTypeChecker program, options = opts, topNode = root\<rparr>
                  fuel root [] of
             Inl e \<Rightarrow> Inl e
           | Inr (generated, ns) \<Rightarrow> Inr generated))"

section \<open>Node's path module on POSIX\<close>

text \<open>
  The three functions of \<^verbatim>\<open>path.posix\<close> the compiler calls, each a loop from the last
  character of the path to the first. An index that the loop has not set is \<open>-1\<close>, as in
  Node's implementation.
\<close>

fun dirname_loop :: "string \<Rightarrow> nat \<Rightarrow> bool \<Rightarrow> int" where
  "dirname_loop path 0 matchedSlash = - 1"
| "dirname_loop path (Suc i) matchedSlash =
     (if path ! Suc i = CHR ''/'' then
        (if \<not> matchedSlash then int (Suc i) else dirname_loop path i matchedSlash)
      else dirname_loop path i False)"

definition slice :: "string \<Rightarrow> int \<Rightarrow> int \<Rightarrow> string" where
  \<comment> \<open>\<^verbatim>\<open>String.prototype.slice\<close> for indices that are not negative\<close>
  "slice s start fin = take (nat fin - nat start) (drop (nat start) s)"

definition posix_dirname :: "string \<Rightarrow> string" where
  "posix_dirname path =
     (if path = [] then ''.''
      else
        (let hasRoot = (path ! 0 = CHR ''/'');
             e = dirname_loop path (length path - 1) True
         in if e = - 1 then (if hasRoot then ''/'' else ''.'')
            else if hasRoot \<and> e = 1 then ''//''
            else slice path 0 e))"

text \<open>\<open>basename_loop path k e matchedSlash\<close> looks at index \<open>k - 1\<close> and returns \<open>(start, end)\<close>.\<close>

fun basename_loop :: "string \<Rightarrow> nat \<Rightarrow> int \<Rightarrow> bool \<Rightarrow> int \<times> int" where
  "basename_loop path 0 e matchedSlash = (0, e)"
| "basename_loop path (Suc i) e matchedSlash =
     (if path ! i = CHR ''/'' then
        (if \<not> matchedSlash then (int (Suc i), e) else basename_loop path i e matchedSlash)
      else if e = - 1 then basename_loop path i (int (Suc i)) False
      else basename_loop path i e matchedSlash)"

text \<open>
  The loop of \<^verbatim>\<open>basename\<close> when an extension is given; it returns
  \<open>(start, end, firstNonSlashEnd)\<close>.
\<close>

fun basename_ext_loop ::
  "string \<Rightarrow> string \<Rightarrow> nat \<Rightarrow> int \<Rightarrow> bool \<Rightarrow> int \<Rightarrow> int \<Rightarrow> int \<times> int \<times> int" where
  "basename_ext_loop path ext 0 e matchedSlash extIdx firstNonSlashEnd =
     (0, e, firstNonSlashEnd)"
| "basename_ext_loop path ext (Suc i) e matchedSlash extIdx firstNonSlashEnd =
     (if path ! i = CHR ''/'' then
        (if \<not> matchedSlash then (int (Suc i), e, firstNonSlashEnd)
         else basename_ext_loop path ext i e matchedSlash extIdx firstNonSlashEnd)
      else
        (let fresh = (firstNonSlashEnd = - 1);
             matchedSlash' = (if fresh then False else matchedSlash);
             firstNonSlashEnd' = (if fresh then int (Suc i) else firstNonSlashEnd)
         in if extIdx \<ge> 0 then
              (if path ! i = ext ! nat extIdx then
                 basename_ext_loop path ext i (if extIdx - 1 = - 1 then int i else e)
                   matchedSlash' (extIdx - 1) firstNonSlashEnd'
               else
                 basename_ext_loop path ext i firstNonSlashEnd' matchedSlash' (- 1)
                   firstNonSlashEnd')
            else basename_ext_loop path ext i e matchedSlash' extIdx firstNonSlashEnd'))"

definition posix_basename :: "string \<Rightarrow> string \<Rightarrow> string" where
  "posix_basename path ext =
     (if ext \<noteq> [] \<and> length ext \<le> length path then
        (if ext = path then []
         else
           (case basename_ext_loop path ext (length path) (- 1) True
                   (int (length ext) - 1) (- 1) of
              (start, e, firstNonSlashEnd) \<Rightarrow>
                (let e' = (if start = e then firstNonSlashEnd
                           else if e = - 1 then int (length path) else e)
                 in slice path start e')))
      else
        (case basename_loop path (length path) (- 1) True of
           (start, e) \<Rightarrow> if e = - 1 then [] else slice path start e))"

text \<open>
  \<open>extname_loop path k startDot e matchedSlash preDotState\<close> looks at index \<open>k - 1\<close> and
  returns \<open>(startDot, startPart, end, preDotState)\<close>.
\<close>

fun extname_loop ::
  "string \<Rightarrow> nat \<Rightarrow> int \<Rightarrow> int \<Rightarrow> bool \<Rightarrow> int \<Rightarrow> int \<times> int \<times> int \<times> int" where
  "extname_loop path 0 startDot e matchedSlash preDotState = (startDot, 0, e, preDotState)"
| "extname_loop path (Suc i) startDot e matchedSlash preDotState =
     (if path ! i = CHR ''/'' then
        (if \<not> matchedSlash then (startDot, int (Suc i), e, preDotState)
         else extname_loop path i startDot e matchedSlash preDotState)
      else
        (let fresh = (e = - 1);
             matchedSlash' = (if fresh then False else matchedSlash);
             e' = (if fresh then int (Suc i) else e)
         in if path ! i = CHR ''.'' then
              (if startDot = - 1 then extname_loop path i (int i) e' matchedSlash' preDotState
               else extname_loop path i startDot e' matchedSlash' 1)
            else if startDot \<noteq> - 1 then extname_loop path i startDot e' matchedSlash' (- 1)
            else extname_loop path i startDot e' matchedSlash' preDotState))"

definition posix_extname :: "string \<Rightarrow> string" where
  "posix_extname path =
     (case extname_loop path (length path) (- 1) (- 1) True 0 of
        (startDot, startPart, e, preDotState) \<Rightarrow>
          if startDot = - 1 \<or> e = - 1 \<or> preDotState = 0 \<or>
             (preDotState = 1 \<and> startDot = e - 1 \<and> startDot = startPart + 1)
          then []
          else slice path startDot e)"

section \<open>A concrete library and checker\<close>

text \<open>
  Constant values of enum members, and the text \<^verbatim>\<open>ts.getTextOfConstantValue\<close> gives them:
  a number in decimal, a string between double quotes (for the strings in which nothing
  has to be escaped).
\<close>

datatype const_value = StringValue string | NumberValue nat

fun decimal :: "nat \<Rightarrow> string" where
  "decimal n =
     (if n < 10 then [''0123456789'' ! n]
      else decimal (n div 10) @ [''0123456789'' ! (n mod 10)])"

fun textOfConstant :: "const_value \<Rightarrow> string" where
  "textOfConstant (StringValue s) = DQ @ s @ DQ"
| "textOfConstant (NumberValue n) = decimal n"

definition posixLibrary :: "const_value library" where
  "posixLibrary =
     \<lparr>ts_getTextOfConstantValue = textOfConstant,
      path_extname = posix_extname,
      path_dirname = posix_dirname,
      path_basename = posix_basename\<rparr>"

text \<open>
  A checker that resolves every identifier to a symbol of the identifier's own name and
  nothing else, with the constants and the imported modules given.
\<close>

definition nameChecker ::
  "(enum_member \<Rightarrow> const_value option) \<Rightarrow> (string \<Rightarrow> node list option) \<Rightarrow> const_value TypeChecker" where
  "nameChecker constants modules =
     \<lparr>getSymbolAtLocation =
        (\<lambda>n. case n of
               Identifier text \<Rightarrow> Some \<lparr>symbolName = text, declarations = None\<rparr>
             | OtherNode kind text parentIsSourceFile \<Rightarrow>
                 (if kind = ''StringLiteral'' then
                    (case modules text of
                       None \<Rightarrow> None
                     | Some decls \<Rightarrow> Some \<lparr>symbolName = text, declarations = Some decls\<rparr>)
                  else None)
             | _ \<Rightarrow> None),
      getConstantValue = constants\<rparr>"


definition noConstants :: "enum_member \<Rightarrow> const_value option" where
  "noConstants m = None"

definition noModules :: "string \<Rightarrow> node list option" where
  "noModules s = None"

definition plainCompiler :: "ICompilerOptions \<Rightarrow> const_value Compiler" where
  "plainCompiler opts =
     \<lparr>checker = nameChecker noConstants noModules, options = opts,
      topNode = SourceFile ''main.ts'' []\<rparr>"

section \<open>Fields of a record type\<close>






section \<open>Example declarations\<close>



text \<open>
  \<^verbatim>\<open>/** @schema */ interface Heir extends A, B { z?: boolean[] }\<close>, and the same
  extending \<^verbatim>\<open>A, Array<string>\<close>.
\<close>

definition heirMembers :: "node list" where
  "heirMembers = [PropertySignature (Identifier ''z'') True (Some (ArrayType BooleanKeyword))]"

definition heirClauses :: "node list list" where
  "heirClauses =
     [[ExpressionWithTypeArguments (Identifier ''A''),
       ExpressionWithTypeArguments (Identifier ''B'')]]"





text \<open>
  \<^verbatim>\<open>/** @schema */ enum Color { Red, Green }\<close> in a file \<^verbatim>\<open>color.ts\<close>, with a checker that
  folds \<^verbatim>\<open>Red\<close> to 0 and has no constant value for \<^verbatim>\<open>Green\<close>.
\<close>

definition colorMembers :: "enum_member list" where
  "colorMembers = [EnumMember ''Red'', EnumMember ''Green'']"

definition colorConstants :: "enum_member \<Rightarrow> const_value option" where
  "colorConstants m = (if m = EnumMember ''Red'' then Some (NumberValue 0) else None)"

definition colorCompiler :: "const_value Compiler" where
  "colorCompiler =
     \<lparr>checker = nameChecker colorConstants noModules, options = defaultOptions,
      topNode = SourceFile ''main.ts'' []\<rparr>"

definition colorFile :: node where
  "colorFile =
     SourceFile ''color.ts''
       [EnumDeclaration [''@schema''] (Identifier ''Color'') colorMembers]"

definition colorProgram :: "const_value Program" where
  "colorProgram =
     \<lparr>getTypeChecker = nameChecker colorConstants noModules,
      getSourceFile = (\<lambda>f. if f = ''color.ts'' then Some colorFile else None),
      collectDiagnostics = []\<rparr>"

text \<open>
  A module \<^verbatim>\<open>foo.ts\<close> with \<^verbatim>\<open>/** @schema */ interface A { x: number }\<close>, a compiler with
  \<^verbatim>\<open>inlineImports\<close> on whose checker resolves \<^verbatim>\<open>'./foo'\<close> to it, and the statements
  \<^verbatim>\<open>import { A, B as C } from './foo'\<close>, \<^verbatim>\<open>import * as foo from './foo'\<close> and
  \<^verbatim>\<open>export { B as C } from './foo'\<close>.
\<close>

definition fooFile :: node where
  "fooFile =
     SourceFile ''foo.ts''
       [InterfaceDeclaration [''@schema''] (Identifier ''A'')
          [PropertySignature (Identifier ''x'') False (Some NumberKeyword)] None]"

definition fooModules :: "string \<Rightarrow> node list option" where
  "fooModules raw = (if raw = SQ @ ''./foo'' @ SQ then Some [fooFile] else None)"

definition inliningCompiler :: "const_value Compiler" where
  "inliningCompiler =
     \<lparr>checker = nameChecker noConstants fooModules,
      options = defaultOptions\<lparr>inlineImports := Some True\<rparr>,
      topNode = SourceFile ''main.ts'' []\<rparr>"

definition namedImport :: node where
  "namedImport =
     ImportDeclaration
       (Some (ImportClause
                (Some (NamedImports [Specifier None ''A'', Specifier (Some ''B'') ''C'']))))
       (SQ @ ''./foo'' @ SQ)"

definition namespaceImport :: node where
  "namespaceImport =
     ImportDeclaration (Some (ImportClause (Some (NamespaceImport ''foo''))))
       (SQ @ ''./foo'' @ SQ)"

definition namedExport :: node where
  "namedExport = ExportDeclaration (Some [Specifier (Some ''B'') ''C'']) (Some (SQ @ ''./foo'' @ SQ))"

section \<open>Properties\<close>

lemma hasTag_iff: "hasTag tags tagName \<longleftrightarrow> ''@'' @ tagName \<in> set tags"
  by (auto simp: hasTag_def find_None_iff)

lemma getName_plain [simp]: "getName (plainCompiler opts) (Identifier text) = text"
  by (simp add: getName_def plainCompiler_def nameChecker_def)

lemma options_plain [simp]: "options (plainCompiler opts) = opts"
  by (simp add: plainCompiler_def)

subsection \<open>Fields without a type\<close>

text \<open>
  C10: a property signature with no type annotation never fails: its schema expression is
  \<^verbatim>\<open>Joi.any()\<close>, followed by \<^verbatim>\<open>.required()\<close> exactly when the field has no question token.
\<close>

theorem property_without_type:
  "compileNode L C fuel (PropertySignature name questionToken None) ns =
     Inr (SQ @ getName C name @ SQ @ '': Joi.any()'' @
          (if questionToken then [] else ''.required()''), ns)"
  by simp

subsection \<open>Type references with type arguments\<close>

text \<open>
  C2: a reference to \<^verbatim>\<open>Array\<close> with type arguments compiles to \<^verbatim>\<open>Joi.array().items(...)\<close>
  around the translation of the first type argument, whatever \<^verbatim>\<open>ignoreGenerics\<close> is; a
  reference to any other name with type arguments throws the generics error unless
  \<^verbatim>\<open>ignoreGenerics\<close> is true, and then compiles to \<^verbatim>\<open>Joi.any()\<close>.
\<close>

theorem type_reference_with_arguments:
  "compileNode L C fuel (TypeReference ''Array'' (Some (a # rest)) src) ns =
     (case compileNode L C fuel a ns of
        Inl e \<Rightarrow> Inl e
      | Inr (t, ns') \<Rightarrow> Inr (''Joi.array().items('' @ t @ '')'', ns')) \<and>
   (typeName \<noteq> ''Array'' \<longrightarrow>
    compileNode L C fuel (TypeReference typeName (Some args) src') ns =
      (if ignoreGenerics (options C) = Some True then Inr (''Joi.any()'', ns)
       else Inl (GenericsNotSupported src')))"
  by (simp add: truthy_def)

theorem type_reference_with_arguments_witness:
  "compileNode posixLibrary (plainCompiler defaultOptions) 0
     (TypeReference ''Array'' (Some [StringKeyword]) ''Array<string>'') [] =
     Inr (''Joi.array().items(Joi.string())'', []) \<and>
   ''Map'' \<noteq> ''Array'' \<and>
   compileNode posixLibrary (plainCompiler defaultOptions) 0
     (TypeReference ''Map'' (Some [StringKeyword, NumberKeyword]) ''Map<string, number>'') [] =
     Inl (GenericsNotSupported ''Map<string, number>'')"
  using type_reference_with_arguments
    [where L = posixLibrary and C = "plainCompiler defaultOptions" and fuel = 0
       and a = StringKeyword and rest = "[]" and src = "''Array<string>''" and ns = "[]"
       and typeName = "''Map''" and args = "[StringKeyword, NumberKeyword]"
       and src' = "''Map<string, number>''"]
  by (simp add: defaultOptions_def)

subsection \<open>Nodes of other kinds\<close>

text \<open>
  C3: a node of a kind that \<^verbatim>\<open>compileNode\<close> does not list compiles to the empty string when
  its parent is a source file, and throws "Node ... not supported" otherwise. So a source
  file whose only statement is such a node compiles to nothing but its wrapper, and an
  array type around such a node throws.
\<close>

theorem other_node:
  "compileNode L C fuel (OtherNode kind src True) ns = Inr ([], ns) \<and>
   compileNode L C fuel (OtherNode kind src False) ns = Inl (NodeNotSupported kind src) \<and>
   compileNode L C fuel (SourceFile f [OtherNode kind src True]) ns =
     Inr (if SourceFile f [OtherNode kind src True] = topNode C
          then sourceFilePrefix @ NL @ NL else [], ns) \<and>
   compileNode L C fuel (ArrayType (OtherNode kind src False)) ns =
     Inl (NodeNotSupported kind src)"
  by simp

subsection \<open>Enum declarations\<close>


subsection \<open>Enum members without a constant value\<close>

text \<open>
  C5, as the code has it: when the checker has no constant value for a member of a tagged
  enum, the declaration still compiles. The member takes its place in the list of values
  as the text \<^verbatim>\<open>undefined\<close>, and the name of the enum is exported as usual.
\<close>

theorem enum_unresolved_member:
  assumes tagged: "''@schema'' \<in> set tags"
    and member: "i < length members"
    and unresolved: "getConstantValue (checker C) (members ! i) = None"
  shows "\<exists>vals. compileNode L C fuel (EnumDeclaration tags name members) ns =
                  Inr (''export const '' @ getName C name @ '' = Joi.valid('' @
                       join '', '' vals @ '').strict();'', ns @ [getName C name]) \<and>
                length vals = length members \<and> vals ! i = ''undefined''"
proof -
  let ?vals = "map (\<lambda>m. getTextOfConstantValue L (getConstantValue (checker C) m)) members"
  have "?vals ! i = ''undefined''"
    using member unresolved by (simp add: getTextOfConstantValue_def)
  then show ?thesis
    using tagged by (intro exI [of _ ?vals]) (simp add: hasTag_iff Let_def)
qed

theorem enum_unresolved_member_witness:
  "\<exists>vals. compileNode posixLibrary colorCompiler 0
             (EnumDeclaration [''@schema''] (Identifier ''Color'') colorMembers) [] =
             Inr (''export const '' @ getName colorCompiler (Identifier ''Color'') @
                  '' = Joi.valid('' @ join '', '' vals @ '').strict();'',
                  [] @ [getName colorCompiler (Identifier ''Color'')]) \<and>
           length vals = length colorMembers \<and> vals ! 1 = ''undefined''"
proof -
  have tagged: "''@schema'' \<in> set [''@schema'']" by simp
  have member: "1 < length colorMembers" by (simp add: colorMembers_def)
  have unresolved: "getConstantValue (checker colorCompiler) (colorMembers ! 1) = None"
    by (simp add: colorCompiler_def nameChecker_def colorConstants_def colorMembers_def)
  show ?thesis
    using enum_unresolved_member [OF tagged member unresolved] .
qed

text \<open>
  Compiling the whole of \<^verbatim>\<open>color.ts\<close> does not fail, although \<^verbatim>\<open>Green\<close> has no constant
  value.
\<close>

theorem enum_unresolved_member_compiles:
  "compile posixLibrary colorProgram 0 ''color.ts'' defaultOptions =
     Inr (sourceFilePrefix @
          ''export const Color = Joi.valid(0, undefined).strict();'' @ NL @ NL)"
  by (simp add: compile_def colorProgram_def colorFile_def colorMembers_def colorConstants_def
        nameChecker_def hasTag_iff getName_def getTextOfConstantValue_def posixLibrary_def)

subsection \<open>Interface declarations\<close>









lemma heirMembers_compiled:
  "mapR (compileNode posixLibrary (plainCompiler defaultOptions) 0) heirMembers [] =
     Inr ([SQ @ ''z'' @ SQ @ '': Joi.array().items(Joi.boolean())''], [])"
  by (simp add: heirMembers_def)

text \<open>
  C6: for a tagged interface with heritage clauses, when the members translate and the
  inherited expressions translate to texts none of which is \<^verbatim>\<open>Array\<close>, the result is
  \<^verbatim>\<open>Joi.object()\<close> followed by one \<^verbatim>\<open>.concat(...)\<close> per inherited expression in the order of
  the clauses, then \<^verbatim>\<open>.keys({...})\<close> with the lines of the members, then \<^verbatim>\<open>.strict()\<close>; the
  name is appended to the exported names.
\<close>

theorem interface_heritage:
  assumes tagged: "''@schema'' \<in> set tags"
    and members: "mapR (compileNode L C fuel) members ns = Inr (compiled, ns1)"
    and heritage: "mapR (mapR (compileNode L C fuel)) clauses ns1 = Inr (pushed, ns2)"
    and noArray: "''Array'' \<notin> set (concat pushed)"
  shows "compileNode L C fuel (InterfaceDeclaration tags name members (Some clauses)) ns =
           Inr (''export const '' @ getName C name @ '' = Joi.object()'' @
                concat (map (\<lambda>ex. ''.concat('' @ ex @ '')'') (concat pushed)) @
                ''.keys({'' @ NL @
                concat (map memberLine (filter (\<lambda>n. n \<noteq> []) compiled)) @
                ''}).strict();'',
                ns2 @ [getName C name])"
  using assms by (simp add: hasTag_iff Let_def ignoreNode_def)

theorem interface_heritage_witness:
  "compileNode posixLibrary (plainCompiler defaultOptions) 0
     (InterfaceDeclaration [''@schema''] (Identifier ''Heir'') heirMembers (Some heirClauses))
     [] =
   Inr (''export const Heir = Joi.object().concat(A).concat(B).keys({'' @ NL @
        ''  '' @ SQ @ ''z'' @ SQ @ '': Joi.array().items(Joi.boolean()),'' @ NL @
        ''}).strict();'', [''Heir''])"
proof -
  have tagged: "''@schema'' \<in> set [''@schema'']" by simp
  have heritage:
    "mapR (mapR (compileNode posixLibrary (plainCompiler defaultOptions) 0)) heirClauses [] =
       Inr ([[''A'', ''B'']], [])"
    by (simp add: heirClauses_def)
  have noArray: "''Array'' \<notin> set (concat [[''A'', ''B'']])" by simp
  show ?thesis
    using interface_heritage
      [OF tagged heirMembers_compiled heritage noArray, of "Identifier ''Heir''"]
    by (simp add: memberLine_def indent_def)
qed




subsection \<open>Import and export declarations\<close>

lemmas path_defs =
  outPath_def posixLibrary_def defaultOptions_def defaultSuffix_def truthyString_def
  posix_extname_def posix_dirname_def posix_basename_def slice_def numeral_nat

lemmas rewrite_defs =
  rewrittenImport_def rewrittenExport_def substring_def startsWith_def specifierPart_def

text \<open>
  C8: with the default options (suffix \<^verbatim>\<open>-schema\<close>, no \<^verbatim>\<open>outDir\<close>) the statements
  \<^verbatim>\<open>import { A, B as C } from './foo'\<close> and \<^verbatim>\<open>export { B as C } from './foo'\<close> keep their
  elements and aliases, but the module path becomes \<^verbatim>\<open>.foo-schema\<close>: the directory \<^verbatim>\<open>.\<close> and
  the base name are put together with nothing between them. With \<^verbatim>\<open>outDir\<close> set, the same
  import is rewritten to \<^verbatim>\<open>./foo-schema\<close>.
\<close>

theorem named_import_default_policy:
  "compileNode posixLibrary (plainCompiler defaultOptions) 0 namedImport [] =
     Inr (''import { A, B as C } from '' @ SQ @ ''.foo-schema'' @ SQ, []) \<and>
   compileNode posixLibrary (plainCompiler defaultOptions) 0 namedExport [] =
     Inr (''export { B as C } from '' @ SQ @ ''.foo-schema'' @ SQ, []) \<and>
   compileNode posixLibrary (plainCompiler (defaultOptions\<lparr>outDir := Some ''out''\<rparr>)) 0
     namedImport [] =
     Inr (''import { A, B as C } from '' @ SQ @ ''./foo-schema'' @ SQ, [])"
  by (simp add: namedImport_def namedExport_def rewrite_defs path_defs)

text \<open>
  C9: with \<^verbatim>\<open>inlineImports\<close> on and \<^verbatim>\<open>'./foo'\<close> resolved by the checker, the statement
  \<^verbatim>\<open>import { A, B as C } from './foo'\<close> is still rewritten to an import statement: the
  declarations of \<^verbatim>\<open>foo.ts\<close> are not compiled in its place. The namespace import of the same
  module is inlined.
\<close>

theorem named_import_not_inlined:
  "compileNode posixLibrary inliningCompiler 1 namedImport [] =
     Inr (''import { A, B as C } from '' @ SQ @ ''.foo-schema'' @ SQ, []) \<and>
   compileNode posixLibrary inliningCompiler 1 namespaceImport [] =
     Inr (''export const A = Joi.object().keys({'' @ NL @
          ''  '' @ SQ @ ''x'' @ SQ @ '': Joi.number().required(),'' @ NL @
          ''}).strict();'', [''A''])"
  by (simp add: namedImport_def namespaceImport_def inliningCompiler_def rewrite_defs
        path_defs importedDeclarations_def nameChecker_def fooModules_def fooFile_def
        truthy_def hasTag_iff getName_def memberLine_def indent_def ignoreNode_def)

end
